theory Spec2Isabelle
  imports Complex_Main "HOL-Library.Word"
begin

section \<open>The prompter service: one handler around one upstream call\<close>

text \<open>
  The service is \<^verbatim>\<open>prompter_service.py\<close>: a FastAPI route \<^verbatim>\<open>POST /refine\<close> whose handler
  \<^verbatim>\<open>refine_prompt\<close> sends the user's query with a fixed system prompt to a chat completion
  API, decodes the reply's content with \<^verbatim>\<open>json.loads\<close>, and builds a
  \<^verbatim>\<open>PrompterResponse\<close> from two fields of the decoded object. All of it stands in one
  \<^verbatim>\<open>try\<close> block whose \<^verbatim>\<open>except Exception as e\<close> clause returns
  \<^verbatim>\<open>{"error": str(e)}\<close>.

  The model below is the handler as a function. What the handler calls but the repository
  does not define (the completion client, \<^verbatim>\<open>json.loads\<close>, the parts of pydantic's
  validation that depend on its version) is a parameter. The upstream call is the only
  effect: it takes and returns a world of arbitrary type.

  Python's \<^verbatim>\<open>str\<close> is \<^typ>\<open>string\<close> here, a list of 8-bit characters. The handler never
  looks at a character of the query or of a field, so nothing below depends on the
  alphabet.
\<close>

subsection \<open>Python values and exceptions\<close>

text \<open>
  The values \<^verbatim>\<open>json.loads\<close> produces. A float is kept as its IEEE 754 binary64 bit
  pattern (the decoder also accepts \<^verbatim>\<open>NaN\<close> and \<^verbatim>\<open>Infinity\<close>); a dict is an association
  list read with \<^const>\<open>map_of\<close>.
\<close>

datatype pyval =
    PNone
  | PBool bool
  | PInt int
  | PFloat "64 word"
  | PStr string
  | PList "pyval list"
  | PDict "(string \<times> pyval) list"

text \<open>
  A raised exception, by the one distinction the handler's \<^verbatim>\<open>except Exception\<close> clause
  makes: an instance of a class derived from \<^verbatim>\<open>Exception\<close>, or an instance of a class
  that derives from \<^verbatim>\<open>BaseException\<close> only (\<^verbatim>\<open>KeyboardInterrupt\<close>, \<^verbatim>\<open>SystemExit\<close>,
  \<^verbatim>\<open>GeneratorExit\<close>, \<^verbatim>\<open>asyncio.CancelledError\<close>). Both carry the class name and the text
  \<^verbatim>\<open>str(e)\<close> gives.
\<close>

datatype py_exception =
    Exc string string
  | BaseExc string string

fun isinstance_Exception :: "py_exception \<Rightarrow> bool" where
  "isinstance_Exception (Exc c m) = True"
| "isinstance_Exception (BaseExc c m) = False"

fun str_of :: "py_exception \<Rightarrow> string" where
  "str_of (Exc c m) = m"
| "str_of (BaseExc c m) = m"

fun type_name :: "pyval \<Rightarrow> string" where
  "type_name PNone = ''NoneType''"
| "type_name (PBool b) = ''bool''"
| "type_name (PInt i) = ''int''"
| "type_name (PFloat f) = ''float''"
| "type_name (PStr s) = ''str''"
| "type_name (PList xs) = ''list''"
| "type_name (PDict d) = ''dict''"

subsection \<open>The API models and the upstream's types\<close>

record PrompterRequest =
  user_query :: string

record PrompterResponse =
  enhanced_eng_prompt :: string
  back_translation_kor :: string

text \<open>
  The keyword arguments of \<^verbatim>\<open>client.chat.completions.create\<close>. A message is the dict the
  source writes, \<^verbatim>\<open>{"role": ..., "content": ...}\<close>, as an association list. The temperature
  is the decimal literal of the source.
\<close>

record create_kwargs =
  model :: string
  response_format :: "(string \<times> string) list"
  messages :: "(string \<times> string) list list"
  temperature :: rat

text \<open>
  What the handler reads of a completion: \<^verbatim>\<open>completion.choices[0].message.content\<close>.
  The content of a message is optional in the client's types (\<^verbatim>\<open>None\<close> for a refusal).
\<close>

record ChatCompletionMessage =
  content :: "string option"

record Choice =
  message :: ChatCompletionMessage

record ChatCompletion =
  choices :: "Choice list"

text \<open>
  The completion client: given the keyword arguments, it acts on the world (the network,
  the upstream service) and either raises or returns a completion.
\<close>

type_synonym 'w client = "create_kwargs \<Rightarrow> 'w \<Rightarrow> (py_exception + ChatCompletion) \<times> 'w"

text \<open>
  The library functions the handler relies on, as parameters:
  \<^item> \<open>loads\<close> is \<^verbatim>\<open>json.loads\<close> on a \<^verbatim>\<open>str\<close>: the decoded value, or the class name and
    text of the exception it raises (\<^verbatim>\<open>JSONDecodeError\<close>, or \<^verbatim>\<open>RecursionError\<close> on deep
    nesting; both derive from \<^verbatim>\<open>Exception\<close>);
  \<^item> \<open>str_lax\<close> is what pydantic makes of a value that is neither a \<^verbatim>\<open>str\<close> nor
    \<^verbatim>\<open>None\<close> in a field declared \<^verbatim>\<open>str\<close> (version 1 converts numbers, version 2 rejects
    them);
  \<^item> \<open>validation_error_str\<close> is \<^verbatim>\<open>str(e)\<close> of the \<^verbatim>\<open>ValidationError\<close> for the rejected
    fields, each with its input.
\<close>

record py_libs =
  loads :: "string \<Rightarrow> (string \<times> string) + pyval"
  str_lax :: "pyval \<Rightarrow> string option"
  validation_error_str :: "(string \<times> pyval) list \<Rightarrow> string"

text \<open>
  The handler returns a \<^verbatim>\<open>PrompterResponse\<close> from the \<^verbatim>\<open>try\<close> block and a dict from the
  \<^verbatim>\<open>except\<close> clause.
\<close>

datatype returned =
    Model PrompterResponse
  | Dict "(string \<times> pyval) list"

subsection \<open>The system prompt\<close>

definition PROMPTER_SYSTEM_PROMPT :: string where
  \<open>PROMPTER_SYSTEM_PROMPT =
     ''\<newline>'' @
     ''You are 'Prompter', an expert prompt engineer. Your job is to take a user's (Korean) query and perform a 2-step process:\<newline>'' @
     ''\<newline>'' @
     ''1.  **Enhance & Translate (Step 1):** First, enhance the user's simple query into a detailed, high-quality, and actionable *English* prompt for a main LLM. This prompt should be clear, specific, and anticipate the user's full needs.\<newline>'' @
     ''2.  **Back-Translate (Step 2):** Second, you must take the *exact English prompt you just generated* and translate it back into *Korean* for user verification.\<newline>'' @
     ''\<newline>'' @
     ''You **must** return ONLY a JSON object with this structure:\<newline>'' @
     ''{\<newline>'' @
     ''  "enhanced_eng_prompt": "The detailed English prompt you created in Step 1",\<newline>'' @
     ''  "back_translation_kor": "The Korean back-translation from Step 2"\<newline>'' @
     ''}\<newline>''\<close>

subsection \<open>The handler\<close>

text \<open>The arguments of the call, lines 43 to 52 of the source.\<close>

definition completion_kwargs :: "PrompterRequest \<Rightarrow> create_kwargs" where
  "completion_kwargs request =
     \<lparr> model = ''gpt-4o-mini'',
       response_format = [(''type'', ''json_object'')],
       messages =
         [ [(''role'', ''system''), (''content'', PROMPTER_SYSTEM_PROMPT)],
           [(''role'', ''user''), (''content'', user_query request)] ],
       temperature = 3 / 10 \<rparr>"

text \<open>\<^verbatim>\<open>completion.choices[0]\<close>: an empty list raises \<^verbatim>\<open>IndexError\<close>.\<close>

definition first_choice :: "ChatCompletion \<Rightarrow> py_exception + Choice" where
  "first_choice completion =
     (case choices completion of
        [] \<Rightarrow> Inl (Exc ''IndexError'' ''list index out of range'')
      | c # cs \<Rightarrow> Inr c)"

text \<open>
  \<^verbatim>\<open>json.loads(content)\<close>: \<^verbatim>\<open>None\<close> is no \<^verbatim>\<open>str\<close> and raises \<^verbatim>\<open>TypeError\<close>; on a
  \<^verbatim>\<open>str\<close> the decoder decides.
\<close>

definition json_loads :: "py_libs \<Rightarrow> string option \<Rightarrow> py_exception + pyval" where
  "json_loads L s =
     (case s of
        None \<Rightarrow>
          Inl (Exc ''TypeError''
                ''the JSON object must be str, bytes or bytearray, not NoneType'')
      | Some t \<Rightarrow>
          (case loads L t of
             Inl (c, m) \<Rightarrow> Inl (Exc c m)
           | Inr v \<Rightarrow> Inr v))"

text \<open>
  \<^verbatim>\<open>response_data.get(key)\<close>: a dict answers with the value or \<^verbatim>\<open>None\<close>; no other decoded
  value has an attribute \<^verbatim>\<open>get\<close>, and the lookup of the attribute raises
  \<^verbatim>\<open>AttributeError\<close>.
\<close>

definition no_attribute_get :: "pyval \<Rightarrow> string" where
  "no_attribute_get v =
     [CHR 0x27] @ type_name v @ [CHR 0x27] @ '' object has no attribute 'get'' @ [CHR 0x27]"

definition dict_get :: "(string \<times> pyval) list \<Rightarrow> string \<Rightarrow> pyval" where
  "dict_get d key = (case map_of d key of None \<Rightarrow> PNone | Some v \<Rightarrow> v)"

fun py_get :: "pyval \<Rightarrow> string \<Rightarrow> py_exception + pyval" where
  "py_get (PDict d) key = Inr (dict_get d key)"
| "py_get v key = Inl (Exc ''AttributeError'' (no_attribute_get v))"

text \<open>
  Validation of one field declared \<^verbatim>\<open>str\<close>: a \<^verbatim>\<open>str\<close> is taken as it is, \<^verbatim>\<open>None\<close> is
  rejected (the field is not optional), anything else is the library's decision.
\<close>

fun str_field :: "py_libs \<Rightarrow> pyval \<Rightarrow> string option" where
  "str_field L (PStr s) = Some s"
| "str_field L PNone = None"
| "str_field L v = str_lax L v"

text \<open>
  \<^verbatim>\<open>PrompterResponse(enhanced_eng_prompt=a, back_translation_kor=b)\<close>: pydantic validates
  both fields and raises one \<^verbatim>\<open>ValidationError\<close> (a \<^verbatim>\<open>ValueError\<close>) for those it rejects.
\<close>

definition rejected :: "py_libs \<Rightarrow> (string \<times> pyval) list \<Rightarrow> (string \<times> pyval) list" where
  "rejected L kwargs = filter (\<lambda>(k, v). str_field L v = None) kwargs"

definition PrompterResponse_init :: "py_libs \<Rightarrow> pyval \<Rightarrow> pyval \<Rightarrow> py_exception + PrompterResponse" where
  "PrompterResponse_init L a b =
     (case (str_field L a, str_field L b) of
        (Some x, Some y) \<Rightarrow>
          Inr \<lparr> enhanced_eng_prompt = x, back_translation_kor = y \<rparr>
      | _ \<Rightarrow>
          Inl (Exc ''ValidationError''
                (validation_error_str L
                   (rejected L [(''enhanced_eng_prompt'', a), (''back_translation_kor'', b)]))))"

text \<open>Lines 58 to 63: from the completion to the returned model, or the first exception.\<close>

definition build_response :: "py_libs \<Rightarrow> ChatCompletion \<Rightarrow> py_exception + returned" where
  "build_response L completion =
     (case first_choice completion of
        Inl e \<Rightarrow> Inl e
      | Inr c \<Rightarrow>
     (case json_loads L (content (message c)) of
        Inl e \<Rightarrow> Inl e
      | Inr response_data \<Rightarrow>
     (case py_get response_data ''enhanced_eng_prompt'' of
        Inl e \<Rightarrow> Inl e
      | Inr a \<Rightarrow>
     (case py_get response_data ''back_translation_kor'' of
        Inl e \<Rightarrow> Inl e
      | Inr b \<Rightarrow>
     (case PrompterResponse_init L a b of
        Inl e \<Rightarrow> Inl e
      | Inr r \<Rightarrow> Inr (Model r))))))"

text \<open>The body of the \<^verbatim>\<open>try\<close> block: the call, then the lines above on its result.\<close>

definition refine_try :: "py_libs \<Rightarrow> 'w client \<Rightarrow> PrompterRequest \<Rightarrow> 'w \<Rightarrow> (py_exception + returned) \<times> 'w" where
  "refine_try L client request w =
     (case client (completion_kwargs request) w of
        (Inl e, w') \<Rightarrow> (Inl e, w')
      | (Inr completion, w') \<Rightarrow> (build_response L completion, w'))"

text \<open>
  \<^verbatim>\<open>except Exception as e: return {"error": str(e)}\<close>. An exception outside
  \<^verbatim>\<open>Exception\<close> is not caught and leaves the handler.
\<close>

fun except_Exception :: "py_exception + returned \<Rightarrow> py_exception + returned" where
  "except_Exception (Inl (Exc c m)) = Inr (Dict [(''error'', PStr (str_of (Exc c m)))])"
| "except_Exception (Inl (BaseExc c m)) = Inl (BaseExc c m)"
| "except_Exception (Inr r) = Inr r"

definition refine_prompt :: "py_libs \<Rightarrow> 'w client \<Rightarrow> PrompterRequest \<Rightarrow> 'w \<Rightarrow> (py_exception + returned) \<times> 'w" where
  "refine_prompt L client request w =
     (case refine_try L client request w of
        (r, w') \<Rightarrow> (except_Exception r, w'))"

text \<open>
  What the handler makes of the outcome of the upstream call: the rest of the \<^verbatim>\<open>try\<close>
  block, then the \<^verbatim>\<open>except\<close> clause. It is not a function of the source; the handler
  is shown below to be the call followed by it.
\<close>

definition respond :: "py_libs \<Rightarrow> py_exception + ChatCompletion \<Rightarrow> py_exception + returned" where
  "respond L outcome =
     except_Exception
       (case outcome of
          Inl e \<Rightarrow> Inl e
        | Inr completion \<Rightarrow> build_response L completion)"

fun isinstance_dict :: "pyval \<Rightarrow> bool" where
  "isinstance_dict (PDict d) = True"
| "isinstance_dict v = False"

fun returns_model :: "py_exception + returned \<Rightarrow> bool" where
  "returns_model (Inr (Model r)) = True"
| "returns_model r = False"

subsection \<open>A mocked upstream and sample replies\<close>

text \<open>
  The mocked client answers every call with one fixed outcome and appends the arguments it
  was called with to a log, which is the world.
\<close>

definition mock_client :: "py_exception + ChatCompletion \<Rightarrow> create_kwargs list client" where
  "mock_client outcome kwargs calls = (outcome, calls @ [kwargs])"

definition reply :: "string \<Rightarrow> py_exception + ChatCompletion" where
  "reply text = Inr \<lparr> choices = [\<lparr> message = \<lparr> content = Some text \<rparr> \<rparr>] \<rparr>"

definition both_fields :: string where
  \<open>both_fields =
     ''{"enhanced_eng_prompt": "Plan a 5-day trip to ...", "back_translation_kor": "5-day trip plan ..."}''\<close>

definition one_field :: string where
  \<open>one_field = ''{"enhanced_eng_prompt": "Plan a 5-day trip to ..."}''\<close>

definition json_array :: string where
  \<open>json_array = ''["Plan a 5-day trip to ..."]''\<close>

definition not_json :: string where
  \<open>not_json = ''Sorry, I cannot help with that.''\<close>

text \<open>
  \<^verbatim>\<open>json.loads\<close> on the sample replies: what Python's decoder gives for each of the first
  three, and its error for text that starts with no JSON value (the answer here to every
  other string, of which only \<^const>\<open>not_json\<close> is used).
\<close>

definition sample_loads :: "string \<Rightarrow> (string \<times> string) + pyval" where
  "sample_loads s =
     (if s = both_fields then
        Inr (PDict [(''enhanced_eng_prompt'', PStr ''Plan a 5-day trip to ...''),
                    (''back_translation_kor'', PStr ''5-day trip plan ...'')])
      else if s = one_field then
        Inr (PDict [(''enhanced_eng_prompt'', PStr ''Plan a 5-day trip to ...'')])
      else if s = json_array then
        Inr (PList [PStr ''Plan a 5-day trip to ...''])
      else
        Inl (''JSONDecodeError'', ''Expecting value: line 1 column 1 (char 0)''))"

text \<open>
  Sample libraries: pydantic 2, which rejects every value that is no \<^verbatim>\<open>str\<close>; the text of
  its error is shortened to the names of the rejected fields.
\<close>

definition sample_libs :: py_libs where
  "sample_libs =
     \<lparr> loads = sample_loads,
       str_lax = (\<lambda>v. None),
       validation_error_str =
         (\<lambda>fields. ''validation error for PrompterResponse:'' @ concat (map (\<lambda>(k, v). '' '' @ k) fields)) \<rparr>"

definition sample_request :: PrompterRequest where
  "sample_request = \<lparr> user_query = ''plan a trip'' \<rparr>"

section \<open>Properties of the handler\<close>

subsection \<open>The handler is the call followed by the response to its outcome\<close>

lemma refine_prompt_eq:
  "refine_prompt L client request w =
     (respond L (fst (client (completion_kwargs request) w)),
      snd (client (completion_kwargs request) w))"
  by (cases "client (completion_kwargs request) w")
     (simp add: refine_prompt_def refine_try_def respond_def split: sum.splits)

text \<open>
  Once the upstream has answered with a completion whose first choice has text content,
  what is left of the \<^verbatim>\<open>try\<close> block is the decoding, the two lookups and the
  construction.
\<close>

lemma respond_reply:
  assumes "outcome = Inr completion"
    and "choices completion = c # cs"
    and "content (message c) = Some text"
  shows "respond L outcome =
     except_Exception
       (case loads L text of
          Inl (cl, m) \<Rightarrow> Inl (Exc cl m)
        | Inr response_data \<Rightarrow>
            (case py_get response_data ''enhanced_eng_prompt'' of
               Inl e \<Rightarrow> Inl e
             | Inr a \<Rightarrow>
                 (case py_get response_data ''back_translation_kor'' of
                    Inl e \<Rightarrow> Inl e
                  | Inr b \<Rightarrow>
                      (case PrompterResponse_init L a b of
                         Inl e \<Rightarrow> Inl e
                       | Inr r \<Rightarrow> Inr (Model r)))))"
  using assms
  by (simp add: respond_def build_response_def first_choice_def json_loads_def
        split: sum.splits prod.splits)

text \<open>
  Whatever the lines after the call raise (\<^verbatim>\<open>IndexError\<close>, \<^verbatim>\<open>TypeError\<close>, the decoder's
  error, \<^verbatim>\<open>AttributeError\<close>, \<^verbatim>\<open>ValidationError\<close>) is an instance of \<^verbatim>\<open>Exception\<close>.
\<close>

lemma build_response_raises_Exception:
  "build_response L completion = Inl e \<Longrightarrow> isinstance_Exception e"
  by (auto simp: build_response_def first_choice_def json_loads_def PrompterResponse_init_def
        split: sum.splits list.splits option.splits prod.splits
        elim!: py_get.elims)

lemma mock_reply:
  "fst (mock_client (reply text) kwargs calls) =
     Inr \<lparr> choices = [\<lparr> message = \<lparr> content = Some text \<rparr> \<rparr>] \<rparr>"
  by (simp add: mock_client_def reply_def)

subsection \<open>A reply with both fields\<close>

text \<open>
  Claim C1. When the upstream answers with a completion whose content decodes to a JSON
  object that holds a string under \<^verbatim>\<open>enhanced_eng_prompt\<close> and a string under
  \<^verbatim>\<open>back_translation_kor\<close>, the handler returns a \<^verbatim>\<open>PrompterResponse\<close> whose two fields
  are those two strings, unchanged.
\<close>

theorem refine_prompt_returns_both_fields:
  assumes "fst (client (completion_kwargs request) w) = Inr completion"
    and "choices completion = c # cs"
    and "content (message c) = Some text"
    and "loads L text = Inr (PDict d)"
    and "map_of d ''enhanced_eng_prompt'' = Some (PStr eng)"
    and "map_of d ''back_translation_kor'' = Some (PStr kor)"
  shows "fst (refine_prompt L client request w) =
           Inr (Model \<lparr> enhanced_eng_prompt = eng, back_translation_kor = kor \<rparr>)"
  using assms(4-6)
  by (simp add: refine_prompt_eq respond_reply [OF assms(1-3)] dict_get_def
        PrompterResponse_init_def)

theorem refine_prompt_returns_both_fields_witness:
  "fst (refine_prompt sample_libs (mock_client (reply both_fields)) sample_request []) =
     Inr (Model \<lparr> enhanced_eng_prompt = ''Plan a 5-day trip to ...'',
                  back_translation_kor = ''5-day trip plan ...'' \<rparr>)"
proof (rule refine_prompt_returns_both_fields)
  show "fst (mock_client (reply both_fields) (completion_kwargs sample_request) []) =
          Inr \<lparr> choices = [\<lparr> message = \<lparr> content = Some both_fields \<rparr> \<rparr>] \<rparr>"
    by (rule mock_reply)
  show "choices \<lparr> choices = [\<lparr> message = \<lparr> content = Some both_fields \<rparr> \<rparr>] \<rparr> =
          \<lparr> message = \<lparr> content = Some both_fields \<rparr> \<rparr> # []"
    by simp
  show "content (message \<lparr> message = \<lparr> content = Some both_fields \<rparr> \<rparr>) = Some both_fields"
    by simp
  show "loads sample_libs both_fields =
          Inr (PDict [(''enhanced_eng_prompt'', PStr ''Plan a 5-day trip to ...''),
                      (''back_translation_kor'', PStr ''5-day trip plan ...'')])"
    by (simp add: sample_libs_def sample_loads_def)
  show "map_of [(''enhanced_eng_prompt'', PStr ''Plan a 5-day trip to ...''),
                (''back_translation_kor'', PStr ''5-day trip plan ...'')] ''enhanced_eng_prompt'' =
          Some (PStr ''Plan a 5-day trip to ...'')"
    by simp
  show "map_of [(''enhanced_eng_prompt'', PStr ''Plan a 5-day trip to ...''),
                (''back_translation_kor'', PStr ''5-day trip plan ...'')] ''back_translation_kor'' =
          Some (PStr ''5-day trip plan ...'')"
    by simp
qed

subsection \<open>A reply without one of the fields\<close>

text \<open>
  The lookup of a missing key gives \<^verbatim>\<open>None\<close>, which a field declared \<^verbatim>\<open>str\<close> rejects:
  the construction raises \<^verbatim>\<open>ValidationError\<close>.
\<close>

lemma PrompterResponse_init_None:
  assumes "a = PNone \<or> b = PNone"
  shows "PrompterResponse_init L a b =
     Inl (Exc ''ValidationError''
       (validation_error_str L
          (rejected L [(''enhanced_eng_prompt'', a), (''back_translation_kor'', b)])))"
  using assms by (auto simp: PrompterResponse_init_def split: option.splits)

text \<open>
  Claim C2, as the code has it. When the content decodes to a JSON object that lacks
  \<^verbatim>\<open>enhanced_eng_prompt\<close> or \<^verbatim>\<open>back_translation_kor\<close>, no exception leaves the handler,
  but it returns no \<^verbatim>\<open>PrompterResponse\<close> with an absent or empty field either: the
  construction of the response fails and the handler returns the error payload
  \<^verbatim>\<open>{"error": str(e)}\<close> of the validation error.
\<close>

theorem refine_prompt_missing_field_error:
  assumes "fst (client (completion_kwargs request) w) = Inr completion"
    and "choices completion = c # cs"
    and "content (message c) = Some text"
    and "loads L text = Inr (PDict d)"
    and "map_of d ''enhanced_eng_prompt'' = None \<or> map_of d ''back_translation_kor'' = None"
  shows "fst (refine_prompt L client request w) =
           Inr (Dict [(''error'', PStr (validation_error_str L
             (rejected L [(''enhanced_eng_prompt'', dict_get d ''enhanced_eng_prompt''),
                          (''back_translation_kor'', dict_get d ''back_translation_kor'')])))])"
proof -
  from assms(5)
  have "dict_get d ''enhanced_eng_prompt'' = PNone \<or> dict_get d ''back_translation_kor'' = PNone"
    by (auto simp: dict_get_def)
  from PrompterResponse_init_None [OF this, of L] assms(4) show ?thesis
    by (simp add: refine_prompt_eq respond_reply [OF assms(1-3)])
qed

theorem refine_prompt_missing_field_error_witness:
  "fst (refine_prompt sample_libs (mock_client (reply one_field)) sample_request []) =
     Inr (Dict [(''error'',
       PStr (''validation error for PrompterResponse:'' @ '' back_translation_kor''))])"
proof -
  let ?d = "[(''enhanced_eng_prompt'', PStr ''Plan a 5-day trip to ...'')]"
  have decoded: "loads sample_libs one_field = Inr (PDict ?d)"
    by (simp add: sample_libs_def sample_loads_def one_field_def both_fields_def)
  have missing: "map_of ?d ''enhanced_eng_prompt'' = None \<or> map_of ?d ''back_translation_kor'' = None"
    by simp
  have "fst (refine_prompt sample_libs (mock_client (reply one_field)) sample_request []) =
      Inr (Dict [(''error'', PStr (validation_error_str sample_libs
        (rejected sample_libs [(''enhanced_eng_prompt'', dict_get ?d ''enhanced_eng_prompt''),
                               (''back_translation_kor'', dict_get ?d ''back_translation_kor'')])))])"
  proof (rule refine_prompt_missing_field_error [OF mock_reply _ _ decoded missing])
    show "choices \<lparr> choices = [\<lparr> message = \<lparr> content = Some one_field \<rparr> \<rparr>] \<rparr> =
            \<lparr> message = \<lparr> content = Some one_field \<rparr> \<rparr> # []"
      by simp
    show "content (message \<lparr> message = \<lparr> content = Some one_field \<rparr> \<rparr>) = Some one_field"
      by simp
  qed
  then show ?thesis
    by (simp add: sample_libs_def rejected_def dict_get_def)
qed

text \<open>
  The claim as the specification words it fails: for the reply \<^const>\<open>one_field\<close>, which
  holds \<^verbatim>\<open>enhanced_eng_prompt\<close> only, the handler returns the error dict and not a response
  model, so the field that was present is not returned either.
\<close>

theorem refine_prompt_missing_field_counterexample:
  "\<not> returns_model
       (fst (refine_prompt sample_libs (mock_client (reply one_field)) sample_request []))
   \<and> fst (refine_prompt sample_libs (mock_client (reply one_field)) sample_request []) =
       Inr (Dict [(''error'', PStr ''validation error for PrompterResponse: back_translation_kor'')])"
  by (simp add: refine_prompt_eq respond_reply [OF mock_reply] sample_libs_def sample_loads_def
        one_field_def both_fields_def dict_get_def PrompterResponse_init_def rejected_def)

subsection \<open>A reply that is not JSON, or not a JSON object\<close>

text \<open>
  Claim C3. When the content of the reply is not valid JSON, so that \<^verbatim>\<open>json.loads\<close> raises,
  no exception leaves the handler: it returns the dict \<^verbatim>\<open>{"error": str(e)}\<close> with the
  decoder's message.
\<close>

theorem refine_prompt_invalid_json_error:
  assumes "fst (client (completion_kwargs request) w) = Inr completion"
    and "choices completion = c # cs"
    and "content (message c) = Some text"
    and "loads L text = Inl (cl, m)"
  shows "fst (refine_prompt L client request w) = Inr (Dict [(''error'', PStr m)])"
  using assms(4)
  by (simp add: refine_prompt_eq respond_reply [OF assms(1-3)])

theorem refine_prompt_invalid_json_error_witness:
  "fst (refine_prompt sample_libs (mock_client (reply not_json)) sample_request []) =
     Inr (Dict [(''error'', PStr ''Expecting value: line 1 column 1 (char 0)'')])"
proof (rule refine_prompt_invalid_json_error [OF mock_reply])
  show "choices \<lparr> choices = [\<lparr> message = \<lparr> content = Some not_json \<rparr> \<rparr>] \<rparr> =
          \<lparr> message = \<lparr> content = Some not_json \<rparr> \<rparr> # []"
    by simp
  show "content (message \<lparr> message = \<lparr> content = Some not_json \<rparr> \<rparr>) = Some not_json"
    by simp
  show "loads sample_libs not_json =
          Inl (''JSONDecodeError'', ''Expecting value: line 1 column 1 (char 0)'')"
    by (simp add: sample_libs_def sample_loads_def not_json_def both_fields_def one_field_def
          json_array_def)
qed

text \<open>
  Claim C9. When the content is valid JSON but decodes to something other than an object
  (a list, a string, a number, a boolean, \<^verbatim>\<open>null\<close>), the lookup of \<^verbatim>\<open>get\<close> raises
  \<^verbatim>\<open>AttributeError\<close> inside the \<^verbatim>\<open>try\<close> block and the handler returns the error dict with
  its message.
\<close>

theorem refine_prompt_non_object_error:
  assumes "fst (client (completion_kwargs request) w) = Inr completion"
    and "choices completion = c # cs"
    and "content (message c) = Some text"
    and "loads L text = Inr v"
    and "\<not> isinstance_dict v"
  shows "fst (refine_prompt L client request w) =
           Inr (Dict [(''error'', PStr (no_attribute_get v))])"
  using assms(4,5)
  by (cases v) (simp_all add: refine_prompt_eq respond_reply [OF assms(1-3)])

theorem refine_prompt_non_object_error_witness:
  "fst (refine_prompt sample_libs (mock_client (reply json_array)) sample_request []) =
     Inr (Dict [(''error'',
       PStr ([CHR 0x27] @ ''list'' @ [CHR 0x27] @ '' object has no attribute '' @
             [CHR 0x27] @ ''get'' @ [CHR 0x27]))])"
proof -
  let ?v = "PList [PStr ''Plan a 5-day trip to ...'']"
  have decoded: "loads sample_libs json_array = Inr ?v"
    by (simp add: sample_libs_def sample_loads_def json_array_def both_fields_def one_field_def)
  have no_dict: "\<not> isinstance_dict ?v"
    by simp
  have "fst (refine_prompt sample_libs (mock_client (reply json_array)) sample_request []) =
      Inr (Dict [(''error'', PStr (no_attribute_get ?v))])"
  proof (rule refine_prompt_non_object_error [OF mock_reply _ _ decoded no_dict])
    show "choices \<lparr> choices = [\<lparr> message = \<lparr> content = Some json_array \<rparr> \<rparr>] \<rparr> =
            \<lparr> message = \<lparr> content = Some json_array \<rparr> \<rparr> # []"
      by simp
    show "content (message \<lparr> message = \<lparr> content = Some json_array \<rparr> \<rparr>) = Some json_array"
      by simp
  qed
  then show ?thesis
    by (simp add: no_attribute_get_def)
qed

subsection \<open>The except clause\<close>

text \<open>
  Claim C4, as the code has it. The clause is \<^verbatim>\<open>except Exception\<close>: every instance of
  \<^verbatim>\<open>Exception\<close> that the upstream call raises, whatever its class, and every exception
  that the decoding, the lookups and the construction of the response raise (all of them
  instances of \<^verbatim>\<open>Exception\<close>) is caught, and the handler returns the one dict
  \<^verbatim>\<open>{"error": str(e)}\<close>, in which the class of the exception does not appear. Every
  exception outside \<^verbatim>\<open>Exception\<close> that the upstream call raises, whatever its class and
  text, is not caught: it leaves the handler as it was raised.
\<close>

theorem refine_prompt_catches_Exception:
  "(fst (client (completion_kwargs request) w) = Inl (Exc cl m) \<longrightarrow>
      fst (refine_prompt L client request w) = Inr (Dict [(''error'', PStr m)]))
   \<and> (fst (client (completion_kwargs request) w) = Inr completion
        \<and> build_response L completion = Inl e \<longrightarrow>
      fst (refine_prompt L client request w) = Inr (Dict [(''error'', PStr (str_of e))]))
   \<and> (fst (client (completion_kwargs request) w) = Inl (BaseExc bcl bm) \<longrightarrow>
      fst (refine_prompt L client request w) = Inl (BaseExc bcl bm))"
proof (intro conjI impI)
  assume "fst (client (completion_kwargs request) w) = Inl (Exc cl m)"
  then show "fst (refine_prompt L client request w) = Inr (Dict [(''error'', PStr m)])"
    by (simp add: refine_prompt_eq respond_def)
next
  assume raised: "fst (client (completion_kwargs request) w) = Inr completion
        \<and> build_response L completion = Inl e"
  then have "isinstance_Exception e"
    by (blast intro: build_response_raises_Exception)
  then obtain cl' m' where "e = Exc cl' m'"
    by (cases e) simp_all
  with raised
  show "fst (refine_prompt L client request w) = Inr (Dict [(''error'', PStr (str_of e))])"
    by (simp add: refine_prompt_eq respond_def)
next
  assume "fst (client (completion_kwargs request) w) = Inl (BaseExc bcl bm)"
  then show "fst (refine_prompt L client request w) = Inl (BaseExc bcl bm)"
    by (simp add: refine_prompt_eq respond_def)
qed

theorem refine_prompt_catches_Exception_witness:
  "fst (refine_prompt sample_libs
          (mock_client (Inl (Exc ''APIConnectionError'' ''Connection error.'')))
          sample_request []) =
     Inr (Dict [(''error'', PStr ''Connection error.'')])
   \<and> fst (refine_prompt sample_libs (mock_client (Inr \<lparr> choices = [] \<rparr>)) sample_request []) =
     Inr (Dict [(''error'', PStr ''list index out of range'')])
   \<and> fst (refine_prompt sample_libs (mock_client (Inl (BaseExc ''SystemExit'' ''1'')))
          sample_request []) =
     Inl (BaseExc ''SystemExit'' ''1'')"
proof (intro conjI)
  have "fst (mock_client (Inl (Exc ''APIConnectionError'' ''Connection error.''))
          (completion_kwargs sample_request) []) =
        Inl (Exc ''APIConnectionError'' ''Connection error.'')"
    by (simp add: mock_client_def)
  with refine_prompt_catches_Exception
         [of "mock_client (Inl (Exc ''APIConnectionError'' ''Connection error.''))"
             sample_request "[]" "''APIConnectionError''" "''Connection error.''" sample_libs]
  show "fst (refine_prompt sample_libs
          (mock_client (Inl (Exc ''APIConnectionError'' ''Connection error.'')))
          sample_request []) =
     Inr (Dict [(''error'', PStr ''Connection error.'')])"
    by blast
next
  have "fst (mock_client (Inr \<lparr> choices = [] \<rparr>) (completion_kwargs sample_request) []) =
          Inr \<lparr> choices = [] \<rparr>
        \<and> build_response sample_libs \<lparr> choices = [] \<rparr> =
          Inl (Exc ''IndexError'' ''list index out of range'')"
    by (simp add: mock_client_def build_response_def first_choice_def)
  with refine_prompt_catches_Exception
         [of "mock_client (Inr \<lparr> choices = [] \<rparr>)" sample_request "[]" _ _ sample_libs
             "\<lparr> choices = [] \<rparr>" "Exc ''IndexError'' ''list index out of range''"]
  show "fst (refine_prompt sample_libs (mock_client (Inr \<lparr> choices = [] \<rparr>)) sample_request []) =
     Inr (Dict [(''error'', PStr ''list index out of range'')])"
    by simp
next
  have "fst (mock_client (Inl (BaseExc ''SystemExit'' ''1''))
          (completion_kwargs sample_request) []) =
        Inl (BaseExc ''SystemExit'' ''1'')"
    by (simp add: mock_client_def)
  with refine_prompt_catches_Exception
         [where client = "mock_client (Inl (BaseExc ''SystemExit'' ''1''))"
            and request = sample_request and w = "[]" and L = sample_libs
            and bcl = "''SystemExit''" and bm = "''1''"]
  show "fst (refine_prompt sample_libs (mock_client (Inl (BaseExc ''SystemExit'' ''1'')))
          sample_request []) =
     Inl (BaseExc ''SystemExit'' ''1'')"
    by blast
qed

text \<open>
  The claim as the specification words it, that no exception leaves the handler, fails
  for an exception outside \<^verbatim>\<open>Exception\<close>: a \<^verbatim>\<open>KeyboardInterrupt\<close> raised during the
  upstream call is not caught.
\<close>

theorem refine_prompt_BaseException_escapes:
  "fst (refine_prompt sample_libs (mock_client (Inl (BaseExc ''KeyboardInterrupt'' '''')))
          sample_request []) =
     Inl (BaseExc ''KeyboardInterrupt'' '''')"
  by (simp add: refine_prompt_eq respond_def mock_client_def)

subsection \<open>What is sent upstream\<close>

text \<open>
  Claim C5. The one call the handler makes carries exactly two messages: a system message
  whose content is the constant \<^const>\<open>PROMPTER_SYSTEM_PROMPT\<close>, then a user message whose
  content is the query of the request, unchanged. This is what any client is called with,
  and what the mocked client finds in its log after the handler ran on an empty log.
\<close>

theorem refine_prompt_sends_two_messages:
  "snd (refine_prompt L client request w) = snd (client (completion_kwargs request) w)
   \<and> messages (completion_kwargs request) =
       [ [(''role'', ''system''), (''content'', PROMPTER_SYSTEM_PROMPT)],
         [(''role'', ''user''), (''content'', user_query request)] ]
   \<and> map messages (snd (refine_prompt L (mock_client outcome) request [])) =
       [ [ [(''role'', ''system''), (''content'', PROMPTER_SYSTEM_PROMPT)],
           [(''role'', ''user''), (''content'', user_query request)] ] ]"
  by (simp add: refine_prompt_eq mock_client_def completion_kwargs_def)

text \<open>
  Claim C6. The call is made with the model \<^verbatim>\<open>gpt-4o-mini\<close>, the response format
  \<^verbatim>\<open>{"type": "json_object"}\<close> and the temperature \<^verbatim>\<open>0.3\<close>, whatever the request.
\<close>

theorem refine_prompt_fixed_parameters:
  "model (completion_kwargs request) = ''gpt-4o-mini''
   \<and> response_format (completion_kwargs request) = [(''type'', ''json_object'')]
   \<and> temperature (completion_kwargs request) = 3 / 10
   \<and> map (\<lambda>kwargs. (model kwargs, response_format kwargs, temperature kwargs))
        (snd (refine_prompt L (mock_client outcome) request [])) =
       [(''gpt-4o-mini'', [(''type'', ''json_object'')], 3 / 10)]"
  by (simp add: refine_prompt_eq mock_client_def completion_kwargs_def)

text \<open>
  Claim C7. The handler checks nothing about the query: for every text, the empty one
  included, the call is made (the log of the mocked client grows by one entry) and the
  user message of that call holds the query as given.
\<close>

theorem refine_prompt_forwards_any_query:
  "snd (refine_prompt L (mock_client outcome) \<lparr> user_query = query \<rparr> calls) =
     calls @ [completion_kwargs \<lparr> user_query = query \<rparr>]
   \<and> map_of (last (messages (completion_kwargs \<lparr> user_query = query \<rparr>))) ''content'' = Some query
   \<and> snd (refine_prompt L (mock_client outcome) \<lparr> user_query = [] \<rparr> calls) =
     calls @ [completion_kwargs \<lparr> user_query = [] \<rparr>]
   \<and> map_of (last (messages (completion_kwargs \<lparr> user_query = [] \<rparr>))) ''content'' = Some []"
  by (simp add: refine_prompt_eq mock_client_def completion_kwargs_def)

subsection \<open>Effects and determinism\<close>

text \<open>
  Claim C8. The handler's only effect is the one upstream call: the world after it is the
  world after that call, and the value it returns is a function of the outcome of the call
  alone. So requests are independent: with a mocked upstream, a request answered earlier
  does not change what a later one returns.
\<close>

theorem refine_prompt_only_effect_is_call:
  "refine_prompt L client request w =
     (respond L (fst (client (completion_kwargs request) w)),
      snd (client (completion_kwargs request) w))
   \<and> fst (refine_prompt L (mock_client outcome) request
            (snd (refine_prompt L (mock_client outcome') request' calls))) =
     fst (refine_prompt L (mock_client outcome) request calls)"
  by (simp add: refine_prompt_eq mock_client_def)

text \<open>
  Claim C10. Two runs of the handler on the same request whose upstream calls have the
  same outcome return the same value, whatever the clients and the worlds are otherwise.
\<close>

theorem refine_prompt_deterministic:
  assumes "fst (client1 (completion_kwargs request) w1) =
           fst (client2 (completion_kwargs request) w2)"
  shows "fst (refine_prompt L client1 request w1) = fst (refine_prompt L client2 request w2)"
  using assms by (simp add: refine_prompt_eq)

theorem refine_prompt_deterministic_witness:
  "fst (refine_prompt sample_libs (mock_client (reply both_fields)) sample_request []) =
   fst (refine_prompt sample_libs (mock_client (reply both_fields)) sample_request
          [completion_kwargs sample_request])"
proof (rule refine_prompt_deterministic)
  show "fst (mock_client (reply both_fields) (completion_kwargs sample_request) []) =
        fst (mock_client (reply both_fields) (completion_kwargs sample_request)
               [completion_kwargs sample_request])"
    by (simp add: mock_client_def)
qed

end
